theory Spec2Isabelle
  imports Complex_Main "HOL-Library.AList"
begin

section \<open>Numbers of the host language\<close>

text \<open>
  Every \<^verbatim>\<open>number\<close> of the sources is an IEEE double. The counters and lengths of the
  statistics, and the settings of a game in play, are integers, and they are modelled as
  \<^typ>\<open>int\<close>: the model coincides with the program as long as the values stay safe integers
  (below \<open>2 ^ 53\<close> in absolute value). Settings that are still to be validated are modelled
  as the untyped values they are.

  The one computation that leaves the integers is the accuracy,
  \<^verbatim>\<open>Math.round((correctCount / length) * 100)\<close>: the quotient and the product are each rounded
  to the nearest double (ties to even), and only then \<^verbatim>\<open>Math.round\<close> rounds to the nearest
  integer (ties upwards). The two roundings are modelled exactly, on dyadic fractions: the pair
  \<open>(m, k)\<close> stands for the double \<open>m / 2 ^ k\<close>.
\<close>

type_synonym double = "int \<times> nat"

text \<open>Scale \<open>a / b\<close> by powers of two until its integer part has 53 bits.\<close>

function normalise :: "int \<Rightarrow> int \<Rightarrow> nat \<Rightarrow> int \<times> nat" where
  "normalise a b k =
     (if 0 < a \<and> 0 < b \<and> a < b * 2 ^ 52 then normalise (2 * a) b (Suc k) else (a, k))"
  by pat_completeness auto
termination
  by (relation "measure (\<lambda>(a, b, k). nat (b * 2 ^ 52 - a))") auto

declare normalise.simps [simp del]

definition roundTiesToEven :: "int \<Rightarrow> int \<Rightarrow> int" where
  "roundTiesToEven a b =
     (let q = a div b; r = a mod b
      in if 2 * r < b then q
         else if b < 2 * r then q + 1
         else if even q then q else q + 1)"

text \<open>
  The double nearest to the fraction \<open>a / b\<close>, for \<open>0 \<le> a / b < 2 ^ 53\<close> (every quotient
  and product of the accuracy lies between 0 and 100).
\<close>

definition toDouble :: "int \<Rightarrow> int \<Rightarrow> double" where
  "toDouble a b =
     (if a = 0 then (0, 0)
      else (case normalise a b 0 of (a', k) \<Rightarrow> (roundTiesToEven a' b, k)))"

text \<open>\<^verbatim>\<open>Math.round\<close>: the integer nearest to the double, a tie going upwards.\<close>

definition Math_round :: "double \<Rightarrow> int" where
  "Math_round d = (case d of (m, k) \<Rightarrow> (2 * m + 2 ^ k) div 2 ^ (Suc k))"

section \<open>Values of the host language\<close>

text \<open>What a function of the program throws, as a value.\<close>

datatype error = TypeError | SyntaxError | DatabaseNotInitialized | PWAEnvironmentNotDetected

text \<open>
  The settings are validated as they come out of \<^verbatim>\<open>JSON.parse\<close> or out of the database,
  where the declared type checks nothing: the argument and each of its fields can be any
  value that JSON has. A number is then any double, \<open>Finite x\<close> standing for the double of
  value \<open>x\<close> (integer or not); only comparisons are made on it, which are exact.
\<close>

datatype JsNumber = NaN | NegInfinity | Finite real | Infinity

datatype JsValue =
    Undefined
  | Null
  | Boolean bool
  | Number JsNumber
  | String string
  | Array "JsValue list"
  | Object "(string \<times> JsValue) list"

text \<open>\<^verbatim>\<open>Math.min\<close> and \<^verbatim>\<open>Math.max\<close> of two numbers: \<open>NaN\<close> when either is.\<close>

fun Math_min :: "JsNumber \<Rightarrow> JsNumber \<Rightarrow> JsNumber" where
  "Math_min NaN b = NaN"
| "Math_min a NaN = NaN"
| "Math_min NegInfinity b = NegInfinity"
| "Math_min a NegInfinity = NegInfinity"
| "Math_min Infinity b = b"
| "Math_min a Infinity = a"
| "Math_min (Finite x) (Finite y) = Finite (min x y)"

fun Math_max :: "JsNumber \<Rightarrow> JsNumber \<Rightarrow> JsNumber" where
  "Math_max NaN b = NaN"
| "Math_max a NaN = NaN"
| "Math_max Infinity b = Infinity"
| "Math_max a Infinity = Infinity"
| "Math_max NegInfinity b = b"
| "Math_max a NegInfinity = a"
| "Math_max (Finite x) (Finite y) = Finite (max x y)"

text \<open>
  \<^verbatim>\<open>a || b\<close> is \<open>a\<close> when \<open>a\<close> is truthy and \<open>b\<close> otherwise; \<open>undefined\<close>,
  \<open>null\<close>, \<open>false\<close>, zero, \<open>NaN\<close> and the empty string are the values that are not.
\<close>

fun ToBoolean :: "JsValue \<Rightarrow> bool" where
  "ToBoolean Undefined = False"
| "ToBoolean Null = False"
| "ToBoolean (Boolean b) = b"
| "ToBoolean (Number n) = (n \<noteq> Finite 0 \<and> n \<noteq> NaN)"
| "ToBoolean (String s) = (s \<noteq> [])"
| "ToBoolean (Array elements) = True"
| "ToBoolean (Object properties) = True"

definition logicalOr :: "JsValue \<Rightarrow> JsValue \<Rightarrow> JsValue" where
  "logicalOr a b = (if ToBoolean a then a else b)"

text \<open>
  \<^verbatim>\<open>Math.min\<close> and \<^verbatim>\<open>Math.max\<close> convert their arguments to numbers. The conversion of
  \<open>undefined\<close>, \<open>null\<close>, a boolean and a number is fixed; the numeric reading of a string,
  and the conversion of an array or an object (which goes through its \<^verbatim>\<open>valueOf\<close> and
  \<^verbatim>\<open>toString\<close> and can throw), belong to the host and are a parameter of the model.
\<close>

record Conversions =
  StringToNumber :: "string \<Rightarrow> JsNumber"
  ObjectToNumber :: "JsValue \<Rightarrow> error + JsNumber"

fun ToNumber :: "Conversions \<Rightarrow> JsValue \<Rightarrow> error + JsNumber" where
  "ToNumber host Undefined = Inr NaN"
| "ToNumber host Null = Inr (Finite 0)"
| "ToNumber host (Boolean b) = Inr (Finite (if b then 1 else 0))"
| "ToNumber host (Number n) = Inr n"
| "ToNumber host (String s) = Inr (StringToNumber host s)"
| "ToNumber host (Array elements) = ObjectToNumber host (Array elements)"
| "ToNumber host (Object properties) = ObjectToNumber host (Object properties)"

text \<open>
  Reading a property: \<open>undefined\<close> and \<open>null\<close> have none and the read throws a
  TypeError; an object gives the value stored under the name, or \<open>undefined\<close>; every
  other value gives \<open>undefined\<close> (for the names of the settings, which no prototype
  defines).
\<close>

fun property :: "JsValue \<Rightarrow> string \<Rightarrow> JsValue" where
  "property (Object properties) name =
     (case map_of properties name of Some v \<Rightarrow> v | None \<Rightarrow> Undefined)"
| "property v name = Undefined"

definition Get :: "JsValue \<Rightarrow> string \<Rightarrow> error + JsValue" where
  "Get v name = (if v = Undefined \<or> v = Null then Inl TypeError else Inr (property v name))"

fun inRange :: "real \<Rightarrow> real \<Rightarrow> JsNumber \<Rightarrow> bool" where
  "inRange lo hi (Finite x) = (lo \<le> x \<and> x \<le> hi)"
| "inRange lo hi n = False"

section \<open>Statistics records (gameStats.ts, repeated in pwaStats.ts)\<close>

text \<open>
  A record written before \<^verbatim>\<open>bestAccuracy\<close> existed has the four older fields only; the
  current interface \<^verbatim>\<open>GameStats\<close> extends that shape by \<^verbatim>\<open>bestAccuracy\<close>.
\<close>

record GameStatsLegacy =
  totalChallenges :: int
  recentAnswers :: "bool list"
  maxConsecutiveCorrect :: int
  currentConsecutiveCorrect :: int

record GameStats = GameStatsLegacy +
  bestAccuracy :: int

definition MAX_RECENT_ANSWERS :: nat where
  "MAX_RECENT_ANSWERS = 100"

definition initializeStats :: GameStats where
  "initializeStats =
     \<lparr>totalChallenges = 0, recentAnswers = [], maxConsecutiveCorrect = 0,
      currentConsecutiveCorrect = 0, bestAccuracy = 0\<rparr>"

definition calculateAccuracy :: "GameStats \<Rightarrow> int" where
  "calculateAccuracy stats =
     (if length (recentAnswers stats) = 0 then 0
      else
        (let correctCount = int (length (filter (\<lambda>answer. answer) (recentAnswers stats)));
             quotient = toDouble correctCount (int (length (recentAnswers stats)));
             percentage = (case quotient of (m, k) \<Rightarrow> toDouble (m * 100) (2 ^ k))
         in Math_round percentage))"

text \<open>
  \<^verbatim>\<open>updateStats\<close> is defined twice in the sources, in gameStats.ts and in pwaStats.ts; the
  second copy inlines \<^verbatim>\<open>calculateAccuracy\<close> and is otherwise the same text. \<^verbatim>\<open>shift()\<close>
  removes the first element, once, when the appended list is longer than the maximum.
\<close>

definition updateStats :: "GameStats \<Rightarrow> bool \<Rightarrow> GameStats" where
  "updateStats stats isCorrect =
     (let appended = recentAnswers stats @ [isCorrect];
          newRecentAnswers =
            (if length appended > MAX_RECENT_ANSWERS then tl appended else appended);
          newCurrentConsecutiveCorrect =
            (if isCorrect then currentConsecutiveCorrect stats + 1 else 0);
          newMaxConsecutiveCorrect =
            max (maxConsecutiveCorrect stats) newCurrentConsecutiveCorrect;
          currentAccuracy = calculateAccuracy (stats\<lparr>recentAnswers := newRecentAnswers\<rparr>);
          newBestAccuracy = max (bestAccuracy stats) currentAccuracy
      in \<lparr>totalChallenges = totalChallenges stats + 1,
          recentAnswers = newRecentAnswers,
          maxConsecutiveCorrect = newMaxConsecutiveCorrect,
          currentConsecutiveCorrect = newCurrentConsecutiveCorrect,
          bestAccuracy = newBestAccuracy\<rparr>)"

section \<open>Settings (gameSettings.ts) and configuration keys (gameStats.ts)\<close>

text \<open>
  The statistics modules declare \<^verbatim>\<open>GameSettings\<close> with the four fields that enter the key;
  gameSettings.ts declares it with \<^verbatim>\<open>targetConsecutive\<close> in addition. An object of the
  larger interface can be passed where the smaller one is expected, which the extensible
  record expresses.
\<close>

record GameSettings =
  gridSize :: int
  showTime :: int
  answerTime :: int
  numActiveCells :: int

record GameSettingsWithTarget = GameSettings +
  targetConsecutive :: int

text \<open>
  A template literal prints a number in decimal, with a minus sign when it is negative
  (for the safe integers below \<open>10 ^ 21\<close>, which covers every value of the settings).
\<close>

definition digitChar :: "nat \<Rightarrow> char" where
  "digitChar d = ''0123456789'' ! d"

fun natToString :: "nat \<Rightarrow> string" where
  "natToString n =
     (if n < 10 then [digitChar n] else natToString (n div 10) @ [digitChar (n mod 10)])"

declare natToString.simps [simp del]

definition Number_toString :: "int \<Rightarrow> string" where
  "Number_toString i =
     (if i < 0 then CHR ''-'' # natToString (nat (- i)) else natToString (nat i))"

text \<open>Reading the digits back, to show that printing loses nothing.\<close>

definition digitValue :: "char \<Rightarrow> nat" where
  "digitValue c = of_char c - 48"

definition readDigits :: "string \<Rightarrow> nat" where
  "readDigits cs = foldl (\<lambda>n c. 10 * n + digitValue c) 0 cs"

definition generateSettingsKey :: "'a GameSettings_scheme \<Rightarrow> string" where
  "generateSettingsKey settings =
     Number_toString (gridSize settings) @ ''-'' @
     Number_toString (showTime settings) @ ''-'' @
     Number_toString (answerTime settings) @ ''-'' @
     Number_toString (numActiveCells settings)"

definition DEFAULT_SETTINGS :: GameSettingsWithTarget where
  "DEFAULT_SETTINGS =
     \<lparr>gridSize = 4, showTime = 500, answerTime = 0, numActiveCells = 5,
      targetConsecutive = 20\<rparr>"

text \<open>
  \<^verbatim>\<open>validateSettings\<close> builds an object of five properties, each
  \<^verbatim>\<open>Math.max(lo, Math.min(hi, settings.name || DEFAULT_SETTINGS.name))\<close>, in the order
  of the source. \<open>validated\<close> is one such property: the read of \<open>settings.name\<close>, the
  fallback, the conversion to a number and the two clamps; what it throws ends the call.
\<close>

definition clampTo :: "Conversions \<Rightarrow> real \<Rightarrow> real \<Rightarrow> JsValue \<Rightarrow> error + JsValue" where
  "clampTo host lo hi v =
     (case ToNumber host v of
        Inl e \<Rightarrow> Inl e
      | Inr n \<Rightarrow> Inr (Number (Math_max (Finite lo) (Math_min (Finite hi) n))))"

definition validated ::
  "Conversions \<Rightarrow> JsValue \<Rightarrow> string \<Rightarrow> real \<Rightarrow> real \<Rightarrow> int \<Rightarrow> error + JsValue" where
  "validated host settings name lo hi fallback =
     (case Get settings name of
        Inl e \<Rightarrow> Inl e
      | Inr v \<Rightarrow> clampTo host lo hi (logicalOr v (Number (Finite (of_int fallback)))))"

definition validateSettings :: "Conversions \<Rightarrow> JsValue \<Rightarrow> error + JsValue" where
  "validateSettings host settings =
     (case validated host settings ''gridSize'' 2 8 (gridSize DEFAULT_SETTINGS) of
        Inl e \<Rightarrow> Inl e
      | Inr g \<Rightarrow>
     (case validated host settings ''showTime'' 100 10000 (showTime DEFAULT_SETTINGS) of
        Inl e \<Rightarrow> Inl e
      | Inr s \<Rightarrow>
     (case validated host settings ''answerTime'' 0 30000 (answerTime DEFAULT_SETTINGS) of
        Inl e \<Rightarrow> Inl e
      | Inr a \<Rightarrow>
     (case validated host settings ''numActiveCells'' 1 64 (numActiveCells DEFAULT_SETTINGS) of
        Inl e \<Rightarrow> Inl e
      | Inr n \<Rightarrow>
     (case validated host settings ''targetConsecutive'' 1 100
             (targetConsecutive DEFAULT_SETTINGS) of
        Inl e \<Rightarrow> Inl e
      | Inr t \<Rightarrow>
          Inr (Object [(''gridSize'', g), (''showTime'', s), (''answerTime'', a),
                       (''numActiveCells'', n), (''targetConsecutive'', t)]))))))"



fun primitive :: "JsValue \<Rightarrow> bool" where
  "primitive (Array elements) = False"
| "primitive (Object properties) = False"
| "primitive v = True"

section \<open>Statistics maps (gameStats.ts)\<close>

text \<open>
  An object used as a map is the list of its properties in their order: \<open>map_of\<close> reads a
  property, \<open>AList.update\<close> assigns one (in place when the key exists, at the end
  otherwise). The keys of an object are distinct.
\<close>

type_synonym GameStatsMap = "(string \<times> GameStats) list"

definition getStatsForSettings :: "GameStatsMap \<Rightarrow> 'a GameSettings_scheme \<Rightarrow> GameStats" where
  "getStatsForSettings statsMap settings =
     (let key = generateSettingsKey settings
      in case map_of statsMap key of Some stats \<Rightarrow> stats | None \<Rightarrow> initializeStats)"

definition updateStatsForSettings ::
  "GameStatsMap \<Rightarrow> 'a GameSettings_scheme \<Rightarrow> bool \<Rightarrow> GameStatsMap" where
  "updateStatsForSettings statsMap settings isCorrect =
     (let key = generateSettingsKey settings;
          currentStats = (case map_of statsMap key of Some stats \<Rightarrow> stats | None \<Rightarrow> initializeStats);
          updatedStats = updateStats currentStats isCorrect
      in AList.update key updatedStats statsMap)"

section \<open>The host: JSON, localStorage and IndexedDB\<close>

text \<open>
  A stored or imported record is a JSON object that has the property \<^verbatim>\<open>bestAccuracy\<close> or,
  when it was written by an older version, lacks it. Every read path adds the missing
  property with the value 0.
\<close>

datatype JsonStats = WithBestAccuracy GameStats | WithoutBestAccuracy GameStatsLegacy

type_synonym JsonStatsMap = "(string \<times> JsonStats) list"

fun migrate :: "JsonStats \<Rightarrow> GameStats" where
  "migrate (WithBestAccuracy stats) = stats"
| "migrate (WithoutBestAccuracy old) =
     \<lparr>totalChallenges = totalChallenges old, recentAnswers = recentAnswers old,
      maxConsecutiveCorrect = maxConsecutiveCorrect old,
      currentConsecutiveCorrect = currentConsecutiveCorrect old, bestAccuracy = 0\<rparr>"

definition asJson :: "GameStatsMap \<Rightarrow> JsonStatsMap" where
  "asJson statsMap = map (\<lambda>(key, stats). (key, WithBestAccuracy stats)) statsMap"

text \<open>
  \<^verbatim>\<open>JSON.parse\<close> and \<^verbatim>\<open>JSON.stringify\<close> belong to the host, not to the program: the model
  takes them as a parameter, always called \<open>JSON\<close>. \<open>parse\<close> gives \<open>None\<close> where
  \<^verbatim>\<open>JSON.parse\<close> throws a SyntaxError. The sources give the parsed value the type
  \<^verbatim>\<open>GameStatsMap\<close>, and the model follows them: a text that is valid JSON of another shape
  is outside the model. (The indentation argument of \<^verbatim>\<open>JSON.stringify\<close> changes the text,
  not what it parses to.)
\<close>

record JSON_library =
  parse :: "string \<Rightarrow> JsonStatsMap option"
  stringify :: "JsonStatsMap \<Rightarrow> string"

text \<open>
  The browser: what \<^verbatim>\<open>isPWA\<close> and \<^verbatim>\<open>detectEnvironment\<close> look at, the item
  \<^verbatim>\<open>"gameStatsMap"\<close> of localStorage, and the object store \<^verbatim>\<open>"stats"\<close> of the database
  \<^verbatim>\<open>"GameStatsDB"\<close>, which holds one item per \<^verbatim>\<open>settingsKey\<close>. An item also carries the
  time of its writing, which nothing reads. The stores are taken to accept every write and to
  open without failure; \<^verbatim>\<open>window\<close> exists, since the manager reads it when it is built.
\<close>

record Browser =
  isStandalone :: bool
  isFullscreen :: bool
  isMinimalUI :: bool
  hasServiceWorker :: bool
  hasIndexedDB :: bool
  localStorage_gameStatsMap :: "string option"
  objectStore_stats :: JsonStatsMap

type_synonym 'a result = "error + 'a"

definition isPWA :: "Browser \<Rightarrow> bool" where
  "isPWA browser =
     ((isStandalone browser \<or> isFullscreen browser \<or> isMinimalUI browser) \<and>
      hasServiceWorker browser \<and> hasIndexedDB browser)"

subsection \<open>The flat store (gameStats.ts)\<close>

text \<open>
  \<^verbatim>\<open>getStatsFromStorage\<close>: an absent or empty item gives the empty map, and so does a text
  that does not parse (the exception is caught and logged).
\<close>

definition getStatsFromStorage :: "JSON_library \<Rightarrow> Browser \<Rightarrow> GameStatsMap" where
  "getStatsFromStorage JSON browser =
     (case localStorage_gameStatsMap browser of
        None \<Rightarrow> []
      | Some stored \<Rightarrow>
          if stored = [] then []
          else (case parse JSON stored of
                  None \<Rightarrow> []
                | Some statsMap \<Rightarrow> map (\<lambda>(key, stats). (key, migrate stats)) statsMap))"

definition saveStatsToStorage :: "JSON_library \<Rightarrow> JsonStatsMap \<Rightarrow> Browser \<Rightarrow> Browser" where
  "saveStatsToStorage JSON statsMap browser =
     browser\<lparr>localStorage_gameStatsMap := Some (stringify JSON statsMap)\<rparr>"

subsection \<open>The structured store (pwaStats.ts)\<close>

record PWAStatsDatabase =
  db_open :: bool

definition new_PWAStatsDatabase :: PWAStatsDatabase where
  "new_PWAStatsDatabase = \<lparr>db_open = False\<rparr>"

definition PWAStatsDatabase_init :: "PWAStatsDatabase \<Rightarrow> PWAStatsDatabase" where
  "PWAStatsDatabase_init this = (if db_open this then this else this\<lparr>db_open := True\<rparr>)"

definition PWAStatsDatabase_saveStats ::
  "PWAStatsDatabase \<Rightarrow> string \<Rightarrow> JsonStats \<Rightarrow> Browser \<Rightarrow> unit result \<times> Browser" where
  "PWAStatsDatabase_saveStats this settingsKey stats browser =
     (if \<not> db_open this then (Inl DatabaseNotInitialized, browser)
      else (Inr (),
            browser\<lparr>objectStore_stats :=
              AList.update settingsKey stats (objectStore_stats browser)\<rparr>))"

definition PWAStatsDatabase_getStats ::
  "PWAStatsDatabase \<Rightarrow> string \<Rightarrow> Browser \<Rightarrow> GameStats option result" where
  "PWAStatsDatabase_getStats this settingsKey browser =
     (if \<not> db_open this then Inl DatabaseNotInitialized
      else Inr (map_option migrate (map_of (objectStore_stats browser) settingsKey)))"

definition PWAStatsDatabase_getAllStats ::
  "PWAStatsDatabase \<Rightarrow> Browser \<Rightarrow> GameStatsMap result" where
  "PWAStatsDatabase_getAllStats this browser =
     (if \<not> db_open this then Inl DatabaseNotInitialized
      else Inr (foldl (\<lambda>statsMap (settingsKey, stats).
                         AList.update settingsKey (migrate stats) statsMap)
                  [] (objectStore_stats browser)))"

definition PWAStatsDatabase_clearAllStats ::
  "PWAStatsDatabase \<Rightarrow> Browser \<Rightarrow> unit result \<times> Browser" where
  "PWAStatsDatabase_clearAllStats this browser =
     (if \<not> db_open this then (Inl DatabaseNotInitialized, browser)
      else (Inr (), browser\<lparr>objectStore_stats := []\<rparr>))"

record PWAStatsManager =
  db :: "PWAStatsDatabase option"
  pwa_initialized :: bool

definition new_PWAStatsManager :: PWAStatsManager where
  "new_PWAStatsManager = \<lparr>db = None, pwa_initialized = False\<rparr>"

definition PWAStatsManager_init :: "PWAStatsManager \<Rightarrow> Browser \<Rightarrow> PWAStatsManager" where
  "PWAStatsManager_init this browser =
     (if pwa_initialized this then this
      else if isPWA browser
        then this\<lparr>db := Some (PWAStatsDatabase_init new_PWAStatsDatabase),
                  pwa_initialized := True\<rparr>
        else this\<lparr>pwa_initialized := True\<rparr>)"

definition PWAStatsManager_saveStats ::
  "PWAStatsManager \<Rightarrow> 'a GameSettings_scheme \<Rightarrow> bool \<Rightarrow> Browser \<Rightarrow>
     unit result \<times> PWAStatsManager \<times> Browser" where
  "PWAStatsManager_saveStats this0 settings isCorrect browser =
     (let this = PWAStatsManager_init this0 browser
      in case db this of
           None \<Rightarrow> (Inl PWAEnvironmentNotDetected, this, browser)
         | Some database \<Rightarrow>
             (let settingsKey = generateSettingsKey settings
              in case PWAStatsDatabase_getStats database settingsKey browser of
                   Inl e \<Rightarrow> (Inl e, this, browser)
                 | Inr found \<Rightarrow>
                     (let currentStats =
                            (case found of Some stats \<Rightarrow> stats | None \<Rightarrow> initializeStats);
                          updatedStats = updateStats currentStats isCorrect
                      in case PWAStatsDatabase_saveStats database settingsKey
                                (WithBestAccuracy updatedStats) browser of
                           (r, browser') \<Rightarrow> (r, this, browser'))))"

definition PWAStatsManager_getStats ::
  "PWAStatsManager \<Rightarrow> 'a GameSettings_scheme \<Rightarrow> Browser \<Rightarrow>
     GameStats result \<times> PWAStatsManager \<times> Browser" where
  "PWAStatsManager_getStats this0 settings browser =
     (let this = PWAStatsManager_init this0 browser
      in case db this of
           None \<Rightarrow> (Inl PWAEnvironmentNotDetected, this, browser)
         | Some database \<Rightarrow>
             (let settingsKey = generateSettingsKey settings
              in case PWAStatsDatabase_getStats database settingsKey browser of
                   Inl e \<Rightarrow> (Inl e, this, browser)
                 | Inr found \<Rightarrow>
                     (Inr (case found of Some stats \<Rightarrow> stats | None \<Rightarrow> initializeStats),
                      this, browser)))"

definition PWAStatsManager_getAllStats ::
  "PWAStatsManager \<Rightarrow> Browser \<Rightarrow> GameStatsMap result \<times> PWAStatsManager \<times> Browser" where
  "PWAStatsManager_getAllStats this0 browser =
     (let this = PWAStatsManager_init this0 browser
      in case db this of
           None \<Rightarrow> (Inl PWAEnvironmentNotDetected, this, browser)
         | Some database \<Rightarrow> (PWAStatsDatabase_getAllStats database browser, this, browser))"

definition PWAStatsManager_exportStats ::
  "JSON_library \<Rightarrow> PWAStatsManager \<Rightarrow> Browser \<Rightarrow>
     string result \<times> PWAStatsManager \<times> Browser" where
  "PWAStatsManager_exportStats JSON this0 browser =
     (let this = PWAStatsManager_init this0 browser
      in case db this of
           None \<Rightarrow> (Inl PWAEnvironmentNotDetected, this, browser)
         | Some database \<Rightarrow>
             (case PWAStatsDatabase_getAllStats database browser of
                Inl e \<Rightarrow> (Inl e, this, browser)
              | Inr statsMap \<Rightarrow> (Inr (stringify JSON (asJson statsMap)), this, browser)))"

text \<open>
  The loop of \<^verbatim>\<open>importStats\<close> over \<^verbatim>\<open>Object.entries(statsMap)\<close>: one write per entry, in
  the order of the entries, stopping at the first write that fails.
\<close>

fun saveEntries ::
  "PWAStatsDatabase \<Rightarrow> JsonStatsMap \<Rightarrow> Browser \<Rightarrow> unit result \<times> Browser" where
  "saveEntries database [] browser = (Inr (), browser)"
| "saveEntries database ((settingsKey, stats) # entries) browser =
     (case PWAStatsDatabase_saveStats database settingsKey stats browser of
        (Inl e, browser') \<Rightarrow> (Inl e, browser')
      | (Inr _, browser') \<Rightarrow> saveEntries database entries browser')"

definition PWAStatsManager_importStats ::
  "JSON_library \<Rightarrow> PWAStatsManager \<Rightarrow> string \<Rightarrow> Browser \<Rightarrow>
     unit result \<times> PWAStatsManager \<times> Browser" where
  "PWAStatsManager_importStats JSON this0 jsonData browser =
     (let this = PWAStatsManager_init this0 browser
      in case db this of
           None \<Rightarrow> (Inl PWAEnvironmentNotDetected, this, browser)
         | Some database \<Rightarrow>
             (case parse JSON jsonData of
                None \<Rightarrow> (Inl SyntaxError, this, browser)
              | Some statsMap \<Rightarrow>
                  (case saveEntries database statsMap browser of
                     (r, browser') \<Rightarrow> (r, this, browser'))))"

subsection \<open>The unified manager (unifiedStatsManager.ts)\<close>

text \<open>
  Of the result of \<^verbatim>\<open>detectEnvironment\<close> the manager reads \<^verbatim>\<open>isPWA\<close> and
  \<^verbatim>\<open>hasIndexedDB\<close>; \<^verbatim>\<open>hasLocalStorage\<close> and \<^verbatim>\<open>storageType\<close> are only reported and
  are left out.
\<close>

record Environment =
  env_isPWA :: bool
  env_isWeb :: bool
  env_hasIndexedDB :: bool

definition detectEnvironment :: "Browser \<Rightarrow> Environment" where
  "detectEnvironment browser =
     (let pwa = isPWA browser
      in \<lparr>env_isPWA = pwa, env_isWeb = (\<not> pwa), env_hasIndexedDB = hasIndexedDB browser\<rparr>)"

record UnifiedStatsManager =
  env :: Environment
  pwaManager :: "PWAStatsManager option"
  initialized :: bool

definition new_UnifiedStatsManager :: "Browser \<Rightarrow> UnifiedStatsManager" where
  "new_UnifiedStatsManager browser =
     \<lparr>env = detectEnvironment browser, pwaManager = None, initialized = False\<rparr>"

definition UnifiedStatsManager_init :: "UnifiedStatsManager \<Rightarrow> Browser \<Rightarrow> UnifiedStatsManager" where
  "UnifiedStatsManager_init this browser =
     (if initialized this then this
      else if env_isPWA (env this)
        then this\<lparr>pwaManager := Some (PWAStatsManager_init new_PWAStatsManager browser),
                  initialized := True\<rparr>
        else this\<lparr>initialized := True\<rparr>)"

text \<open>
  Every method awaits \<^verbatim>\<open>init\<close> first and then takes the structured branch when
  \<^verbatim>\<open>this.env.isPWA && this.pwaManager\<close>, the flat branch otherwise. A method returns its
  result (or the error it throws), the manager and the browser as it leaves them.
\<close>

definition UnifiedStatsManager_saveStats ::
  "JSON_library \<Rightarrow> UnifiedStatsManager \<Rightarrow> 'a GameSettings_scheme \<Rightarrow> bool \<Rightarrow> Browser \<Rightarrow>
     unit result \<times> UnifiedStatsManager \<times> Browser" where
  "UnifiedStatsManager_saveStats JSON this0 settings isCorrect browser =
     (let this = UnifiedStatsManager_init this0 browser
      in case (if env_isPWA (env this) then pwaManager this else None) of
           Some manager \<Rightarrow>
             (case PWAStatsManager_saveStats manager settings isCorrect browser of
                (r, manager', browser') \<Rightarrow> (r, this\<lparr>pwaManager := Some manager'\<rparr>, browser'))
         | None \<Rightarrow>
             (let statsMap = getStatsFromStorage JSON browser;
                  updatedStatsMap = updateStatsForSettings statsMap settings isCorrect
              in (Inr (), this, saveStatsToStorage JSON (asJson updatedStatsMap) browser)))"

text \<open>
  In the structured branch of \<^verbatim>\<open>getStats\<close> the manager adds a missing \<^verbatim>\<open>bestAccuracy\<close>
  once more; the record it receives has the property already.
\<close>

definition UnifiedStatsManager_getStats ::
  "JSON_library \<Rightarrow> UnifiedStatsManager \<Rightarrow> 'a GameSettings_scheme \<Rightarrow> Browser \<Rightarrow>
     GameStats result \<times> UnifiedStatsManager \<times> Browser" where
  "UnifiedStatsManager_getStats JSON this0 settings browser =
     (let this = UnifiedStatsManager_init this0 browser
      in case (if env_isPWA (env this) then pwaManager this else None) of
           Some manager \<Rightarrow>
             (case PWAStatsManager_getStats manager settings browser of
                (r, manager', browser') \<Rightarrow> (r, this\<lparr>pwaManager := Some manager'\<rparr>, browser'))
         | None \<Rightarrow>
             (Inr (getStatsForSettings (getStatsFromStorage JSON browser) settings),
              this, browser))"

definition UnifiedStatsManager_getAllStats ::
  "JSON_library \<Rightarrow> UnifiedStatsManager \<Rightarrow> Browser \<Rightarrow>
     GameStatsMap result \<times> UnifiedStatsManager \<times> Browser" where
  "UnifiedStatsManager_getAllStats JSON this0 browser =
     (let this = UnifiedStatsManager_init this0 browser
      in case (if env_isPWA (env this) then pwaManager this else None) of
           Some manager \<Rightarrow>
             (case PWAStatsManager_getAllStats manager browser of
                (r, manager', browser') \<Rightarrow> (r, this\<lparr>pwaManager := Some manager'\<rparr>, browser'))
         | None \<Rightarrow> (Inr (getStatsFromStorage JSON browser), this, browser))"

definition UnifiedStatsManager_exportStats ::
  "JSON_library \<Rightarrow> UnifiedStatsManager \<Rightarrow> Browser \<Rightarrow>
     string result \<times> UnifiedStatsManager \<times> Browser" where
  "UnifiedStatsManager_exportStats JSON this0 browser =
     (let this = UnifiedStatsManager_init this0 browser
      in case (if env_isPWA (env this) then pwaManager this else None) of
           Some manager \<Rightarrow>
             (case PWAStatsManager_exportStats JSON manager browser of
                (r, manager', browser') \<Rightarrow> (r, this\<lparr>pwaManager := Some manager'\<rparr>, browser'))
         | None \<Rightarrow>
             (let statsMap = getStatsFromStorage JSON browser
              in (Inr (stringify JSON (asJson statsMap)), this, browser)))"

definition UnifiedStatsManager_importStats ::
  "JSON_library \<Rightarrow> UnifiedStatsManager \<Rightarrow> string \<Rightarrow> Browser \<Rightarrow>
     unit result \<times> UnifiedStatsManager \<times> Browser" where
  "UnifiedStatsManager_importStats JSON this0 jsonData browser =
     (let this = UnifiedStatsManager_init this0 browser
      in case (if env_isPWA (env this) then pwaManager this else None) of
           Some manager \<Rightarrow>
             (case PWAStatsManager_importStats JSON manager jsonData browser of
                (r, manager', browser') \<Rightarrow> (r, this\<lparr>pwaManager := Some manager'\<rparr>, browser'))
         | None \<Rightarrow>
             (case parse JSON jsonData of
                None \<Rightarrow> (Inl SyntaxError, this, browser)
              | Some statsMap \<Rightarrow> (Inr (), this, saveStatsToStorage JSON statsMap browser)))"

text \<open>
  \<^verbatim>\<open>clearAllStats\<close>: the structured branch builds a second \<^verbatim>\<open>PWAStatsManager\<close>,
  initialises it and returns; the flat branch removes the item from localStorage.
\<close>

definition UnifiedStatsManager_clearAllStats ::
  "UnifiedStatsManager \<Rightarrow> Browser \<Rightarrow> unit result \<times> UnifiedStatsManager \<times> Browser" where
  "UnifiedStatsManager_clearAllStats this0 browser =
     (let this = UnifiedStatsManager_init this0 browser
      in case (if env_isPWA (env this) then pwaManager this else None) of
           Some manager \<Rightarrow>
             (let pwaManager = PWAStatsManager_init new_PWAStatsManager browser
              in (Inr (), this, browser))
         | None \<Rightarrow> (Inr (), this, browser\<lparr>localStorage_gameStatsMap := None\<rparr>))"

subsection \<open>Managers in use\<close>

text \<open>
  The fields of the manager are private and only \<^verbatim>\<open>init\<close> assigns them, so a manager
  that serves a browser is either as its constructor left it or as \<^verbatim>\<open>init\<close> left it.
\<close>

definition managerOf :: "Browser \<Rightarrow> UnifiedStatsManager \<Rightarrow> bool" where
  "managerOf browser this \<longleftrightarrow>
     this = new_UnifiedStatsManager browser \<or>
     this = UnifiedStatsManager_init (new_UnifiedStatsManager browser) browser"

section \<open>Sample data\<close>

text \<open>
  Concrete inputs for the examples: two records, the texts that hold them under the keys
  \<^verbatim>\<open>4-500-0-5\<close> and \<^verbatim>\<open>5-500-0-5\<close>, the JSON library as a table of these texts (and of
  the empty object, which also stands for every map the examples never print), a browser tab
  whose localStorage holds the first text, and an installed application whose object store
  holds the first record.
\<close>

definition statsA :: GameStats where
  "statsA =
     \<lparr>totalChallenges = 1, recentAnswers = [True], maxConsecutiveCorrect = 1,
      currentConsecutiveCorrect = 1, bestAccuracy = 100\<rparr>"

definition statsB :: GameStats where
  "statsB =
     \<lparr>totalChallenges = 2, recentAnswers = [True, False], maxConsecutiveCorrect = 1,
      currentConsecutiveCorrect = 0, bestAccuracy = 100\<rparr>"

definition textA :: string where
  "textA = ''{\"4-500-0-5\":{\"totalChallenges\":1,\"recentAnswers\":[true],\"maxConsecutiveCorrect\":1,\"currentConsecutiveCorrect\":1,\"bestAccuracy\":100}}''"

definition textB :: string where
  "textB = ''{\"5-500-0-5\":{\"totalChallenges\":2,\"recentAnswers\":[true,false],\"maxConsecutiveCorrect\":1,\"currentConsecutiveCorrect\":0,\"bestAccuracy\":100}}''"

definition sampleJSON :: JSON_library where
  "sampleJSON =
     \<lparr>parse = (\<lambda>text.
        if text = textA then Some [(''4-500-0-5'', WithBestAccuracy statsA)]
        else if text = textB then Some [(''5-500-0-5'', WithBestAccuracy statsB)]
        else if text = ''{}'' then Some []
        else None),
      stringify = (\<lambda>statsMap.
        if statsMap = [(''4-500-0-5'', WithBestAccuracy statsA)] then textA
        else if statsMap = [(''5-500-0-5'', WithBestAccuracy statsB)] then textB
        else ''{}'')\<rparr>"

definition webBrowser :: Browser where
  "webBrowser =
     \<lparr>isStandalone = False, isFullscreen = False, isMinimalUI = False,
      hasServiceWorker = True, hasIndexedDB = True,
      localStorage_gameStatsMap = Some textA, objectStore_stats = []\<rparr>"

definition pwaBrowser :: Browser where
  "pwaBrowser =
     \<lparr>isStandalone = True, isFullscreen = False, isMinimalUI = False,
      hasServiceWorker = True, hasIndexedDB = True,
      localStorage_gameStatsMap = None,
      objectStore_stats = [(''4-500-0-5'', WithBestAccuracy statsA)]\<rparr>"

text \<open>
  The conversions of the host as a table of those the examples use: the strings
  \<^verbatim>\<open>"5"\<close> and \<^verbatim>\<open>"abc"\<close>, the empty array, the empty object and an object whose own
  \<^verbatim>\<open>toString\<close> is not a function.
\<close>

definition sampleConversions :: Conversions where
  "sampleConversions =
     \<lparr>StringToNumber = (\<lambda>s. if s = ''5'' then Finite 5 else NaN),
      ObjectToNumber = (\<lambda>v.
        if v = Object [(''toString'', Null)] then Inl TypeError
        else if v = Array [] then Inr (Finite 0)
        else Inr NaN)\<rparr>"

definition settingsA :: GameSettings where
  "settingsA = \<lparr>gridSize = 4, showTime = 500, answerTime = 0, numActiveCells = 5\<rparr>"

section \<open>The update operation\<close>

lemma updateStats_recentAnswers:
  "recentAnswers (updateStats stats isCorrect) =
     (if 100 \<le> length (recentAnswers stats) then tl (recentAnswers stats @ [isCorrect])
      else recentAnswers stats @ [isCorrect])"
  by (simp add: updateStats_def MAX_RECENT_ANSWERS_def Let_def)

lemma updateStats_totalChallenges:
  "totalChallenges (updateStats stats isCorrect) = totalChallenges stats + 1"
  by (simp add: updateStats_def Let_def)

lemma updateStats_currentConsecutiveCorrect:
  "currentConsecutiveCorrect (updateStats stats isCorrect) =
     (if isCorrect then currentConsecutiveCorrect stats + 1 else 0)"
  by (simp add: updateStats_def Let_def)

lemma updateStats_maxConsecutiveCorrect:
  "maxConsecutiveCorrect (updateStats stats isCorrect) =
     max (maxConsecutiveCorrect stats) (currentConsecutiveCorrect (updateStats stats isCorrect))"
  by (simp add: updateStats_def Let_def)

lemma updateStats_bestAccuracy:
  "bestAccuracy (updateStats stats isCorrect) =
     max (bestAccuracy stats)
       (calculateAccuracy (stats\<lparr>recentAnswers := recentAnswers (updateStats stats isCorrect)\<rparr>))"
  by (simp add: updateStats_def Let_def)


text \<open>
  The roundings of the doubles are visible at the integer result: 23 correct answers out of 40
  are 57.5 percent, but the double product is just below it and \<^verbatim>\<open>Math.round\<close> gives 57.
\<close>

lemma calculateAccuracy_23_of_40:
  "calculateAccuracy
     (initializeStats\<lparr>recentAnswers := replicate 23 True @ replicate 17 False\<rparr>) = 57"
  by code_simp

lemma calculateAccuracy_2_of_3:
  "calculateAccuracy (initializeStats\<lparr>recentAnswers := [True, False, True]\<rparr>) = 67"
  by code_simp

lemma calculateAccuracy_empty:
  "recentAnswers stats = [] \<Longrightarrow> calculateAccuracy stats = 0"
  by (simp add: calculateAccuracy_def)

subsection \<open>The sliding window\<close>

text \<open>
  After any sequence of updates from the empty record the window holds the last 100 outcomes:
  induction on the outcomes from the right, since \<open>foldl\<close> applies the last outcome last.
\<close>

lemma window_foldl:
  "recentAnswers (foldl updateStats initializeStats outcomes) =
     drop (length outcomes - 100) outcomes"
proof (induction outcomes rule: rev_induct)
  case Nil
  show ?case by (simp add: initializeStats_def)
next
  case (snoc isCorrect outcomes)
  let ?w = "drop (length outcomes - 100) outcomes"
  show ?case
  proof (cases "100 \<le> length outcomes")
    case True
    then have "length ?w = 100" by simp
    moreover from True have "?w \<noteq> []" by auto
    moreover from True have "Suc (length outcomes) - 100 = Suc (length outcomes - 100)" by simp
    ultimately show ?thesis
      using snoc True by (simp add: updateStats_recentAnswers drop_Suc tl_drop tl_append2)
  next
    case False
    then show ?thesis
      using snoc by (simp add: updateStats_recentAnswers)
  qed
qed

subsection \<open>Monotonicity\<close>

lemma updateStats_monotone_step:
  "bestAccuracy stats \<le> bestAccuracy (updateStats stats isCorrect) \<and>
   maxConsecutiveCorrect stats \<le> maxConsecutiveCorrect (updateStats stats isCorrect)"
  by (simp add: updateStats_bestAccuracy updateStats_maxConsecutiveCorrect)

lemma foldl_updateStats_monotone:
  "bestAccuracy stats \<le> bestAccuracy (foldl updateStats stats outcomes) \<and>
   maxConsecutiveCorrect stats \<le> maxConsecutiveCorrect (foldl updateStats stats outcomes)"
proof (induction outcomes arbitrary: stats)
  case Nil
  show ?case by simp
next
  case (Cons isCorrect outcomes)
  from Cons [of "updateStats stats isCorrect"] updateStats_monotone_step [of stats isCorrect]
  show ?case by simp
qed

section \<open>Claims about the update operation\<close>

text \<open>
  C1, as the specification states it: from the empty record, the outcomes true, true, false,
  true give \<open>totalChallenges = 4\<close>, the four outcomes as window, a current streak of 1, a
  best streak of 2 and \<open>bestAccuracy = 75\<close>. The program does not return that record.
\<close>

theorem scenario_bestAccuracy_75_counterexample:
  "foldl updateStats initializeStats [True, True, False, True] \<noteq>
     \<lparr>totalChallenges = 4, recentAnswers = [True, True, False, True],
      maxConsecutiveCorrect = 2, currentConsecutiveCorrect = 1, bestAccuracy = 75\<rparr>"
  by code_simp

text \<open>
  C1, amended: the same scenario gives \<open>totalChallenges = 4\<close>, the four outcomes as window,
  a current streak of 1, a best streak of 2 and \<open>bestAccuracy = 100\<close>: the best accuracy is
  the maximum over every window seen so far, and the window after the first answer is
  100 percent correct.
\<close>

theorem scenario_bestAccuracy_100:
  "foldl updateStats initializeStats [True, True, False, True] =
     \<lparr>totalChallenges = 4, recentAnswers = [True, True, False, True],
      maxConsecutiveCorrect = 2, currentConsecutiveCorrect = 1, bestAccuracy = 100\<rparr>"
  by code_simp

text \<open>
  C5: every record reached from the empty record by updates has at most 100 recent answers;
  after exactly 101 updates the first answer is gone and the window is the last 100 outcomes
  in their order.
\<close>

theorem recentAnswers_window_bounded:
  "length (recentAnswers (foldl updateStats initializeStats outcomes)) \<le> 100 \<and>
   (length outcomes = 101 \<longrightarrow>
      recentAnswers (foldl updateStats initializeStats outcomes) = tl outcomes \<and>
      length (recentAnswers (foldl updateStats initializeStats outcomes)) = 100 \<and>
      recentAnswers (foldl updateStats initializeStats outcomes) =
        drop (length outcomes - 100) outcomes)"
  by (simp add: window_foldl drop_Suc)

theorem recentAnswers_window_bounded_witness:
  "length (False # replicate 100 True) = 101 \<and>
   recentAnswers (foldl updateStats initializeStats (False # replicate 100 True)) =
     replicate 100 True"
  using recentAnswers_window_bounded [of "False # replicate 100 True"]
  by simp

text \<open>
  C6: one update never lowers \<open>bestAccuracy\<close> nor \<open>maxConsecutiveCorrect\<close>, whatever the
  input record and the outcome; hence no sequence of updates lowers them.
\<close>

theorem updateStats_monotonic:
  "bestAccuracy stats \<le> bestAccuracy (updateStats stats isCorrect) \<and>
   maxConsecutiveCorrect stats \<le> maxConsecutiveCorrect (updateStats stats isCorrect) \<and>
   bestAccuracy stats \<le> bestAccuracy (foldl updateStats stats outcomes) \<and>
   maxConsecutiveCorrect stats \<le> maxConsecutiveCorrect (foldl updateStats stats outcomes)"
  using updateStats_monotone_step [of stats isCorrect]
    foldl_updateStats_monotone [of stats outcomes]
  by simp

text \<open>
  C10: one update changes the length of the window by at most one. On a record whose window
  has more than 100 entries the outcome is appended and exactly one entry, the oldest, is
  dropped, so the length stays what it was: the result is within the bound of 100 exactly
  when the input was.
\<close>

theorem updateStats_oversized_window:
  "(100 < length (recentAnswers stats) \<longrightarrow>
      recentAnswers (updateStats stats isCorrect) = tl (recentAnswers stats) @ [isCorrect] \<and>
      length (recentAnswers (updateStats stats isCorrect)) = length (recentAnswers stats)) \<and>
   length (recentAnswers (updateStats stats isCorrect)) =
     (if 100 \<le> length (recentAnswers stats) then length (recentAnswers stats)
      else length (recentAnswers stats) + 1) \<and>
   (length (recentAnswers (updateStats stats isCorrect)) \<le> 100 \<longleftrightarrow>
      length (recentAnswers stats) \<le> 100)"
  by (cases "recentAnswers stats") (auto simp add: updateStats_recentAnswers)

theorem updateStats_oversized_window_witness:
  "100 < length (recentAnswers (initializeStats\<lparr>recentAnswers := replicate 101 True\<rparr>)) \<and>
   length (recentAnswers
     (updateStats (initializeStats\<lparr>recentAnswers := replicate 101 True\<rparr>) False)) = 101"
  using updateStats_oversized_window
    [of "initializeStats\<lparr>recentAnswers := replicate 101 True\<rparr>" False]
  by simp

section \<open>Configuration keys and settings\<close>

subsection \<open>Decimal printing is injective\<close>

lemma digit_cases:
  "d < 10 \<Longrightarrow> d \<in> {0, 1, 2, 3, 4, 5, 6, 7, 8, 9 :: nat}"
  by auto

lemma digitValue_digitChar: "d < 10 \<Longrightarrow> digitValue (digitChar d) = d"
  using digit_cases [of d] by (auto simp add: digitValue_def digitChar_def)

lemma digitChar_not_minus: "d < 10 \<Longrightarrow> digitChar d \<noteq> CHR ''-''"
  using digit_cases [of d] by (auto simp add: digitChar_def)

lemma readDigits_snoc: "readDigits (cs @ [c]) = 10 * readDigits cs + digitValue c"
  by (simp add: readDigits_def)

lemma readDigits_natToString: "readDigits (natToString n) = n"
proof (induction n rule: natToString.induct)
  case (1 n)
  show ?case
  proof (cases "n < 10")
    case True
    have "natToString n = [digitChar n]"
      using True by (subst natToString.simps) simp
    with True show ?thesis
      by (simp add: readDigits_def digitValue_digitChar)
  next
    case False
    with 1 have IH: "readDigits (natToString (n div 10)) = n div 10" by simp
    have "natToString n = natToString (n div 10) @ [digitChar (n mod 10)]"
      using False by (subst natToString.simps) simp
    then have "readDigits (natToString n) = 10 * (n div 10) + n mod 10"
      by (simp add: readDigits_snoc digitValue_digitChar IH)
    then show ?thesis by simp
  qed
qed

lemma natToString_inj: "natToString m = natToString n \<Longrightarrow> m = n"
  by (metis readDigits_natToString)

lemma natToString_no_minus: "CHR ''-'' \<notin> set (natToString n)"
proof (induction n rule: natToString.induct)
  case (1 n)
  show ?case
  proof (cases "n < 10")
    case True
    have "natToString n = [digitChar n]"
      using True by (subst natToString.simps) simp
    with True digitChar_not_minus [of n] show ?thesis by auto
  next
    case False
    with 1 have "CHR ''-'' \<notin> set (natToString (n div 10))" by simp
    moreover have "digitChar (n mod 10) \<noteq> CHR ''-''" by (simp add: digitChar_not_minus)
    moreover have "natToString n = natToString (n div 10) @ [digitChar (n mod 10)]"
      using False by (subst natToString.simps) simp
    ultimately show ?thesis by auto
  qed
qed

lemma minus_natToString_differs: "CHR ''-'' # natToString a \<noteq> natToString b"
  using natToString_no_minus [of b] by (metis list.set_intros(1))

lemma Number_toString_inj:
  assumes eq: "Number_toString i = Number_toString j"
  shows "i = j"
proof (cases "i < 0")
  case i: True
  show ?thesis
  proof (cases "j < 0")
    case True
    with i eq have "natToString (nat (- i)) = natToString (nat (- j))"
      by (simp add: Number_toString_def)
    then have "nat (- i) = nat (- j)" by (rule natToString_inj)
    with True i show ?thesis by simp
  next
    case False
    with i eq minus_natToString_differs [of "nat (- i)" "nat j"] show ?thesis
      by (simp add: Number_toString_def)
  qed
next
  case i: False
  show ?thesis
  proof (cases "j < 0")
    case True
    with i eq minus_natToString_differs [of "nat (- j)" "nat i"] show ?thesis
      by (simp add: Number_toString_def)
  next
    case False
    with i eq have "natToString (nat i) = natToString (nat j)"
      by (simp add: Number_toString_def)
    then have "nat i = nat j" by (rule natToString_inj)
    with False i show ?thesis by simp
  qed
qed

subsection \<open>Keys\<close>

lemma generateSettingsKey_cong:
  "gridSize a = gridSize b \<Longrightarrow> showTime a = showTime b \<Longrightarrow> answerTime a = answerTime b \<Longrightarrow>
   numActiveCells a = numActiveCells b \<Longrightarrow> generateSettingsKey a = generateSettingsKey b"
  by (simp add: generateSettingsKey_def)

lemma generateSettingsKey_gridSize:
  "showTime a = showTime b \<Longrightarrow> answerTime a = answerTime b \<Longrightarrow>
   numActiveCells a = numActiveCells b \<Longrightarrow> gridSize a \<noteq> gridSize b \<Longrightarrow>
   generateSettingsKey a \<noteq> generateSettingsKey b"
  by (auto simp add: generateSettingsKey_def dest: Number_toString_inj)

text \<open>
  C7: the key is made of \<open>gridSize\<close>, \<open>showTime\<close>, \<open>answerTime\<close> and
  \<open>numActiveCells\<close> only. Two settings records that agree on these four fields, whatever
  their \<open>targetConsecutive\<close>, have the same key and therefore read the same statistics
  record from any map; two records that differ in \<open>gridSize\<close> and agree on the other
  three fields have different keys.
\<close>

theorem fingerprint_ignores_targetConsecutive:
  fixes a b :: GameSettingsWithTarget
  shows
  "(gridSize a = gridSize b \<and> showTime a = showTime b \<and> answerTime a = answerTime b \<and>
    numActiveCells a = numActiveCells b \<longrightarrow>
      generateSettingsKey a = generateSettingsKey b \<and>
      getStatsForSettings statsMap a = getStatsForSettings statsMap b) \<and>
   generateSettingsKey (a\<lparr>targetConsecutive := t\<rparr>) = generateSettingsKey a \<and>
   (gridSize a \<noteq> gridSize b \<and> showTime a = showTime b \<and> answerTime a = answerTime b \<and>
    numActiveCells a = numActiveCells b \<longrightarrow>
      generateSettingsKey a \<noteq> generateSettingsKey b)"
  using generateSettingsKey_cong [of a b] generateSettingsKey_gridSize [of a b]
  by (auto simp add: getStatsForSettings_def generateSettingsKey_def)

lemma generateSettingsKey_example: "generateSettingsKey \<lparr>gridSize = 4, showTime = 500, answerTime = 0, numActiveCells = 5, targetConsecutive = 20\<rparr> = ''4-500-0-5''"
  by code_simp

theorem fingerprint_ignores_targetConsecutive_witness:
  "generateSettingsKey
     \<lparr>gridSize = 4, showTime = 500, answerTime = 0, numActiveCells = 5, targetConsecutive = 20\<rparr> =
   generateSettingsKey
     \<lparr>gridSize = 4, showTime = 500, answerTime = 0, numActiveCells = 5, targetConsecutive = 7\<rparr> \<and>
   generateSettingsKey
     \<lparr>gridSize = 4, showTime = 500, answerTime = 0, numActiveCells = 5, targetConsecutive = 20\<rparr> \<noteq>
   generateSettingsKey
     \<lparr>gridSize = 5, showTime = 500, answerTime = 0, numActiveCells = 5, targetConsecutive = 20\<rparr>"
proof -
  let ?a = "\<lparr>gridSize = 4, showTime = 500, answerTime = 0, numActiveCells = 5,
             targetConsecutive = 20\<rparr>"
  let ?b = "\<lparr>gridSize = 5, showTime = 500, answerTime = 0, numActiveCells = 5,
             targetConsecutive = 20\<rparr>"
  have "generateSettingsKey (?a\<lparr>targetConsecutive := 7\<rparr>) = generateSettingsKey ?a"
    using fingerprint_ignores_targetConsecutive [where a = ?a and b = ?b and t = 7]
    by blast
  moreover have "generateSettingsKey ?a \<noteq> generateSettingsKey ?b"
    using fingerprint_ignores_targetConsecutive [where a = ?a and b = ?b and t = 7]
    by simp
  ultimately show ?thesis by simp
qed

subsection \<open>Validation\<close>






lemma validateSettings_example:
  "validateSettings sampleConversions
     (Object [(''gridSize'', Number (Finite 12)), (''showTime'', Number (Finite 0)),
              (''numActiveCells'', Number (Finite 70))]) =
     Inr (Object [(''gridSize'', Number (Finite 8)), (''showTime'', Number (Finite 500)),
                  (''answerTime'', Number (Finite 0)), (''numActiveCells'', Number (Finite 64)),
                  (''targetConsecutive'', Number (Finite 20))])"
  by (simp add: validateSettings_def validated_def Get_def clampTo_def logicalOr_def
      DEFAULT_SETTINGS_def)

text \<open>
  Beyond the declared type: \<open>null\<close> and \<open>undefined\<close> raise; fields that are not arrays
  or objects never raise, and each comes back in its range or as \<open>NaN\<close>; a field that is
  an object can raise.
\<close>

lemma clamp_cases:
  "lo \<le> hi \<Longrightarrow>
   Math_max (Finite lo) (Math_min (Finite hi) m) = NaN \<or>
   inRange lo hi (Math_max (Finite lo) (Math_min (Finite hi) m))"
  by (cases m) (auto simp add: min_def max_def)

lemma validateSettings_nullish:
  "validateSettings host Undefined = Inl TypeError"
  "validateSettings host Null = Inl TypeError"
  by (simp_all add: validateSettings_def validated_def Get_def)

lemma validated_primitive:
  assumes "settings \<noteq> Undefined" and "settings \<noteq> Null" and "lo \<le> hi"
    and "primitive (property settings name)"
  shows "\<exists>m. validated host settings name lo hi d = Inr (Number m) \<and>
           (m = NaN \<or> inRange lo hi m)"
proof -
  let ?v = "logicalOr (property settings name) (Number (Finite (of_int d)))"
  from assms(4) have "primitive ?v" by (simp add: logicalOr_def)
  then obtain m where "ToNumber host ?v = Inr m" by (cases ?v) auto
  with assms(1,2) clamp_cases [OF assms(3), of m] show ?thesis
    by (auto simp add: validated_def Get_def clampTo_def)
qed

lemma validateSettings_primitive_fields:
  assumes "settings \<noteq> Undefined" and "settings \<noteq> Null"
    and "primitive (property settings ''gridSize'')"
    and "primitive (property settings ''showTime'')"
    and "primitive (property settings ''answerTime'')"
    and "primitive (property settings ''numActiveCells'')"
    and "primitive (property settings ''targetConsecutive'')"
  shows "\<exists>g s a n t.
     validateSettings host settings =
       Inr (Object [(''gridSize'', Number g), (''showTime'', Number s),
                    (''answerTime'', Number a), (''numActiveCells'', Number n),
                    (''targetConsecutive'', Number t)]) \<and>
     (g = NaN \<or> inRange 2 8 g) \<and> (s = NaN \<or> inRange 100 10000 s) \<and>
     (a = NaN \<or> inRange 0 30000 a) \<and> (n = NaN \<or> inRange 1 64 n) \<and>
     (t = NaN \<or> inRange 1 100 t)"
proof -
  note nonnull = assms(1,2)
  obtain g where g: "validated host settings ''gridSize'' 2 8 (gridSize DEFAULT_SETTINGS) =
      Inr (Number g)" "g = NaN \<or> inRange 2 8 g"
    using validated_primitive [OF nonnull _ assms(3), of 2 8 host] by auto
  obtain s where s: "validated host settings ''showTime'' 100 10000 (showTime DEFAULT_SETTINGS) =
      Inr (Number s)" "s = NaN \<or> inRange 100 10000 s"
    using validated_primitive [OF nonnull _ assms(4), of 100 10000 host] by auto
  obtain a where a: "validated host settings ''answerTime'' 0 30000 (answerTime DEFAULT_SETTINGS) =
      Inr (Number a)" "a = NaN \<or> inRange 0 30000 a"
    using validated_primitive [OF nonnull _ assms(5), of 0 30000 host] by auto
  obtain n where n: "validated host settings ''numActiveCells'' 1 64
      (numActiveCells DEFAULT_SETTINGS) = Inr (Number n)" "n = NaN \<or> inRange 1 64 n"
    using validated_primitive [OF nonnull _ assms(6), of 1 64 host] by auto
  obtain t where t: "validated host settings ''targetConsecutive'' 1 100
      (targetConsecutive DEFAULT_SETTINGS) = Inr (Number t)" "t = NaN \<or> inRange 1 100 t"
    using validated_primitive [OF nonnull _ assms(7), of 1 100 host] by auto
  have "validateSettings host settings =
      Inr (Object [(''gridSize'', Number g), (''showTime'', Number s),
                   (''answerTime'', Number a), (''numActiveCells'', Number n),
                   (''targetConsecutive'', Number t)])"
    by (simp add: validateSettings_def g(1) s(1) a(1) n(1) t(1))
  with g(2) s(2) a(2) n(2) t(2) show ?thesis by blast
qed

lemma validateSettings_object_field_raises:
  "validateSettings sampleConversions
     (Object [(''gridSize'', Object [(''toString'', Null)])]) = Inl TypeError"
  by (simp add: validateSettings_def validated_def Get_def clampTo_def logicalOr_def
      sampleConversions_def)

section \<open>The manager and the stores\<close>

subsection \<open>What the methods do\<close>

lemma isPWA_stores [simp]:
  "isPWA (browser\<lparr>objectStore_stats := store\<rparr>) = isPWA browser"
  "isPWA (browser\<lparr>localStorage_gameStatsMap := item\<rparr>) = isPWA browser"
  by (simp_all add: isPWA_def)

lemma init_new:
  "UnifiedStatsManager_init (new_UnifiedStatsManager browser) browser =
     \<lparr>env = detectEnvironment browser,
      pwaManager =
        (if isPWA browser
         then Some \<lparr>db = Some \<lparr>db_open = True\<rparr>, pwa_initialized = True\<rparr>
         else None),
      initialized = True\<rparr>"
  by (simp add: UnifiedStatsManager_init_def new_UnifiedStatsManager_def detectEnvironment_def
      PWAStatsManager_init_def new_PWAStatsManager_def PWAStatsDatabase_init_def
      new_PWAStatsDatabase_def Let_def)

lemma init_managerOf:
  "managerOf browser this \<Longrightarrow>
   UnifiedStatsManager_init this browser =
     UnifiedStatsManager_init (new_UnifiedStatsManager browser) browser"
  unfolding managerOf_def
  by (auto simp add: init_new UnifiedStatsManager_init_def)

lemma managerOf_init:
  "managerOf browser (UnifiedStatsManager_init (new_UnifiedStatsManager browser) browser)"
  by (simp add: managerOf_def)

lemma new_UnifiedStatsManager_stores [simp]:
  "new_UnifiedStatsManager (browser\<lparr>objectStore_stats := store\<rparr>) =
     new_UnifiedStatsManager browser"
  "new_UnifiedStatsManager (browser\<lparr>localStorage_gameStatsMap := item\<rparr>) =
     new_UnifiedStatsManager browser"
  by (simp_all add: new_UnifiedStatsManager_def detectEnvironment_def Let_def)

lemma UnifiedStatsManager_init_stores [simp]:
  "UnifiedStatsManager_init this (browser\<lparr>objectStore_stats := store\<rparr>) =
     UnifiedStatsManager_init this browser"
  "UnifiedStatsManager_init this (browser\<lparr>localStorage_gameStatsMap := item\<rparr>) =
     UnifiedStatsManager_init this browser"
  by (simp_all add: UnifiedStatsManager_init_def PWAStatsManager_init_def)

lemma managerOf_stores [simp]:
  "managerOf (browser\<lparr>objectStore_stats := store\<rparr>) this = managerOf browser this"
  "managerOf (browser\<lparr>localStorage_gameStatsMap := item\<rparr>) this = managerOf browser this"
  by (simp_all add: managerOf_def)

lemma saveStatsToStorage_host [simp]:
  "isPWA (saveStatsToStorage JSON statsMap browser) = isPWA browser"
  "managerOf (saveStatsToStorage JSON statsMap browser) this = managerOf browser this"
  "UnifiedStatsManager_init this (saveStatsToStorage JSON statsMap browser) =
     UnifiedStatsManager_init this browser"
  "new_UnifiedStatsManager (saveStatsToStorage JSON statsMap browser) =
     new_UnifiedStatsManager browser"
  "objectStore_stats (saveStatsToStorage JSON statsMap browser) = objectStore_stats browser"
  by (simp_all add: saveStatsToStorage_def)

lemma PWAStatsManager_init_ready:
  "PWAStatsManager_init \<lparr>db = Some \<lparr>db_open = True\<rparr>, pwa_initialized = True\<rparr> browser =
     \<lparr>db = Some \<lparr>db_open = True\<rparr>, pwa_initialized = True\<rparr>"
  by (simp add: PWAStatsManager_init_def)

lemma getAllStats_managerOf:
  assumes "managerOf browser this"
  shows "UnifiedStatsManager_getAllStats JSON this browser =
     (Inr (if isPWA browser
           then foldl (\<lambda>statsMap (settingsKey, stats).
                         AList.update settingsKey (migrate stats) statsMap)
                  [] (objectStore_stats browser)
           else getStatsFromStorage JSON browser),
      UnifiedStatsManager_init (new_UnifiedStatsManager browser) browser, browser)"
  by (simp add: UnifiedStatsManager_getAllStats_def init_managerOf [OF assms] init_new
      detectEnvironment_def Let_def PWAStatsManager_getAllStats_def PWAStatsManager_init_ready
      PWAStatsDatabase_getAllStats_def)

lemma getStats_managerOf:
  assumes "managerOf browser this"
  shows "UnifiedStatsManager_getStats JSON this settings browser =
     (Inr (if isPWA browser
           then (case map_of (objectStore_stats browser) (generateSettingsKey settings) of
                   Some stats \<Rightarrow> migrate stats | None \<Rightarrow> initializeStats)
           else getStatsForSettings (getStatsFromStorage JSON browser) settings),
      UnifiedStatsManager_init (new_UnifiedStatsManager browser) browser, browser)"
  by (simp add: UnifiedStatsManager_getStats_def init_managerOf [OF assms] init_new
      detectEnvironment_def Let_def PWAStatsManager_getStats_def PWAStatsManager_init_ready
      PWAStatsDatabase_getStats_def split: option.splits)

lemma clearAllStats_managerOf:
  assumes "managerOf browser this"
  shows "UnifiedStatsManager_clearAllStats this browser =
     (Inr (), UnifiedStatsManager_init (new_UnifiedStatsManager browser) browser,
      if isPWA browser then browser else browser\<lparr>localStorage_gameStatsMap := None\<rparr>)"
  by (simp add: UnifiedStatsManager_clearAllStats_def init_managerOf [OF assms] init_new
      detectEnvironment_def Let_def)

lemma exportStats_managerOf:
  assumes "managerOf browser this"
  shows "UnifiedStatsManager_exportStats JSON this browser =
     (Inr (stringify JSON (asJson
        (if isPWA browser
         then foldl (\<lambda>statsMap (settingsKey, stats).
                       AList.update settingsKey (migrate stats) statsMap)
                [] (objectStore_stats browser)
         else getStatsFromStorage JSON browser))),
      UnifiedStatsManager_init (new_UnifiedStatsManager browser) browser, browser)"
  by (simp add: UnifiedStatsManager_exportStats_def init_managerOf [OF assms] init_new
      detectEnvironment_def Let_def PWAStatsManager_exportStats_def PWAStatsManager_init_ready
      PWAStatsDatabase_getAllStats_def)

lemma saveEntries_open:
  "saveEntries \<lparr>db_open = True\<rparr> entries browser =
     (Inr (),
      browser\<lparr>objectStore_stats :=
        foldl (\<lambda>store (settingsKey, stats). AList.update settingsKey stats store)
          (objectStore_stats browser) entries\<rparr>)"
  by (induction entries arbitrary: browser) (auto simp add: PWAStatsDatabase_saveStats_def)

lemma importStats_managerOf:
  assumes "managerOf browser this"
  shows "UnifiedStatsManager_importStats JSON this jsonData browser =
     (case parse JSON jsonData of
        None \<Rightarrow>
          (Inl SyntaxError, UnifiedStatsManager_init (new_UnifiedStatsManager browser) browser,
           browser)
      | Some statsMap \<Rightarrow>
          (Inr (), UnifiedStatsManager_init (new_UnifiedStatsManager browser) browser,
           if isPWA browser
           then browser\<lparr>objectStore_stats :=
                  foldl (\<lambda>store (settingsKey, stats). AList.update settingsKey stats store)
                    (objectStore_stats browser) statsMap\<rparr>
           else saveStatsToStorage JSON statsMap browser))"
  by (simp add: UnifiedStatsManager_importStats_def init_managerOf [OF assms] init_new
      detectEnvironment_def Let_def PWAStatsManager_importStats_def PWAStatsManager_init_ready
      saveEntries_open split: option.splits)

lemma saveStats_managerOf:
  assumes "managerOf browser this"
  shows "UnifiedStatsManager_saveStats JSON this settings isCorrect browser =
     (Inr (), UnifiedStatsManager_init (new_UnifiedStatsManager browser) browser,
      if isPWA browser
      then browser\<lparr>objectStore_stats :=
             AList.update (generateSettingsKey settings)
               (WithBestAccuracy (updateStats
                  (case map_of (objectStore_stats browser) (generateSettingsKey settings) of
                     Some stats \<Rightarrow> migrate stats | None \<Rightarrow> initializeStats)
                  isCorrect))
               (objectStore_stats browser)\<rparr>
      else saveStatsToStorage JSON
             (asJson (updateStatsForSettings (getStatsFromStorage JSON browser) settings
                isCorrect))
             browser)"
  by (simp add: UnifiedStatsManager_saveStats_def init_managerOf [OF assms] init_new
      detectEnvironment_def Let_def PWAStatsManager_saveStats_def PWAStatsManager_init_ready
      PWAStatsDatabase_getStats_def PWAStatsDatabase_saveStats_def split: option.splits)

subsection \<open>The sample data\<close>

lemma settingsA_key: "generateSettingsKey settingsA = ''4-500-0-5''"
  by code_simp

lemma textA_textB: "textA \<noteq> textB" "textA \<noteq> []" "textB \<noteq> []" "textA \<noteq> ''{}''" "textB \<noteq> ''{}''"
  by (simp_all add: textA_def textB_def)

lemma statsA_statsB: "statsA \<noteq> statsB"
  by (simp add: statsA_def statsB_def)

lemma sampleJSON_parse:
  "parse sampleJSON textA = Some [(''4-500-0-5'', WithBestAccuracy statsA)]"
  "parse sampleJSON textB = Some [(''5-500-0-5'', WithBestAccuracy statsB)]"
  "parse sampleJSON ''{}'' = Some []"
  "parse sampleJSON ''{oops'' = None"
  "parse sampleJSON [] = None"
  by (simp_all add: sampleJSON_def textA_textB textA_textB [symmetric]) (simp_all add: textA_def textB_def)

lemma sampleJSON_stringify:
  "stringify sampleJSON [(''4-500-0-5'', WithBestAccuracy statsA)] = textA"
  "stringify sampleJSON [(''5-500-0-5'', WithBestAccuracy statsB)] = textB"
  "stringify sampleJSON [] = ''{}''"
  by (simp_all add: sampleJSON_def)

lemma isPWA_samples: "\<not> isPWA webBrowser" "isPWA pwaBrowser"
  by (simp_all add: isPWA_def webBrowser_def pwaBrowser_def)

lemma getStatsFromStorage_webBrowser:
  "getStatsFromStorage sampleJSON webBrowser = [(''4-500-0-5'', statsA)]"
  by (simp add: getStatsFromStorage_def webBrowser_def textA_textB sampleJSON_parse)

subsection \<open>Objects with distinct keys\<close>

lemma update_fresh:
  "k \<notin> fst ` set al \<Longrightarrow> AList.update k v al = al @ [(k, v)]"
  by (induction al) auto

lemma update_in_place:
  "k \<notin> fst ` set pre \<Longrightarrow>
   AList.update k v (pre @ (k, v0) # rest) = pre @ (k, v) # rest"
  by (induction pre) auto

lemma collect_distinct:
  "distinct (map fst acc @ map fst items) \<Longrightarrow>
   foldl (\<lambda>statsMap (settingsKey, stats). AList.update settingsKey (f stats) statsMap)
     acc items = acc @ map (\<lambda>(settingsKey, stats). (settingsKey, f stats)) items"
proof (induction items arbitrary: acc)
  case Nil
  show ?case by simp
next
  case (Cons item items)
  obtain k v where item: "item = (k, v)" by (cases item)
  from Cons.prems item have fresh: "k \<notin> fst ` set acc" by auto
  from Cons.prems item have "distinct (map fst (acc @ [(k, f v)]) @ map fst items)" by auto
  from Cons.IH [OF this] show ?case
    by (simp add: item update_fresh [OF fresh])
qed

lemma rewrite_distinct:
  "distinct (map fst (pre @ items)) \<Longrightarrow>
   foldl (\<lambda>store (settingsKey, stats). AList.update settingsKey stats store)
     (pre @ items) (map (\<lambda>(settingsKey, stats). (settingsKey, g stats)) items) =
   pre @ map (\<lambda>(settingsKey, stats). (settingsKey, g stats)) items"
proof (induction items arbitrary: pre)
  case Nil
  show ?case by simp
next
  case (Cons item items)
  obtain k v where item: "item = (k, v)" by (cases item)
  from Cons.prems item have fresh: "k \<notin> fst ` set pre" by auto
  from Cons.prems item have "distinct (map fst ((pre @ [(k, g v)]) @ items))" by auto
  from Cons.IH [OF this] show ?case
    by (simp add: item update_in_place [OF fresh])
qed

lemma getAll_distinct:
  "distinct (map fst store) \<Longrightarrow>
   foldl (\<lambda>statsMap (settingsKey, stats). AList.update settingsKey (migrate stats) statsMap)
     [] store = map (\<lambda>(settingsKey, stats). (settingsKey, migrate stats)) store"
  using collect_distinct [where acc = "[]" and items = store and f = migrate] by simp

lemma asJson_migrated:
  "asJson (map (\<lambda>(settingsKey, stats). (settingsKey, migrate stats)) store) =
     map (\<lambda>(settingsKey, stats). (settingsKey, WithBestAccuracy (migrate stats))) store"
  by (simp add: asJson_def case_prod_unfold)

lemma migrate_asJson:
  "map (\<lambda>(settingsKey, stats). (settingsKey, migrate stats)) (asJson statsMap) = statsMap"
  by (induction statsMap) (auto simp add: asJson_def)

lemma import_exported_store:
  assumes "distinct (map fst store)"
  shows "foldl (\<lambda>store (settingsKey, stats). AList.update settingsKey stats store) store
     (map (\<lambda>(settingsKey, stats). (settingsKey, WithBestAccuracy (migrate stats))) store) =
     map (\<lambda>(settingsKey, stats). (settingsKey, WithBestAccuracy (migrate stats))) store"
  using rewrite_distinct
    [where pre = "[]" and items = store and g = "\<lambda>stats. WithBestAccuracy (migrate stats)"]
    assms
  by simp

lemma getStatsFromStorage_saved:
  assumes "parse JSON (stringify JSON statsMap) = Some statsMap" and "parse JSON [] = None"
  shows "getStatsFromStorage JSON (saveStatsToStorage JSON statsMap browser) =
     map (\<lambda>(settingsKey, stats). (settingsKey, migrate stats)) statsMap"
proof -
  from assms have "stringify JSON statsMap \<noteq> []" by auto
  with assms(1) show ?thesis
    by (simp add: getStatsFromStorage_def saveStatsToStorage_def)
qed

subsection \<open>Recording an answer\<close>

text \<open>
  In both modes \<open>saveStats\<close> followed by \<open>getStats\<close> for the same settings gives the
  update of the record that \<open>getStats\<close> gave before.
\<close>

lemma saveStats_then_getStats_structured:
  assumes mgr: "managerOf browser this" and pwa: "isPWA browser"
    and before: "fst (UnifiedStatsManager_getStats JSON this settings browser) = Inr stats"
  shows "\<exists>this' browser'.
     UnifiedStatsManager_saveStats JSON this settings isCorrect browser =
       (Inr (), this', browser') \<and>
     managerOf browser' this' \<and> isPWA browser' \<and>
     fst (UnifiedStatsManager_getStats JSON this' settings browser') =
       Inr (updateStats stats isCorrect)"
  using pwa before mgr
  by (auto simp add: saveStats_managerOf getStats_managerOf managerOf_init
      AList.update_conv' split: option.splits)

lemma saveStats_then_getStats_flat:
  assumes mgr: "managerOf browser this" and web: "\<not> isPWA browser"
    and before: "fst (UnifiedStatsManager_getStats JSON this settings browser) = Inr stats"
    and json: "parse JSON (stringify JSON (asJson
        (updateStatsForSettings (getStatsFromStorage JSON browser) settings isCorrect))) =
      Some (asJson
        (updateStatsForSettings (getStatsFromStorage JSON browser) settings isCorrect))"
    and empty: "parse JSON [] = None"
  shows "\<exists>this' browser'.
     UnifiedStatsManager_saveStats JSON this settings isCorrect browser =
       (Inr (), this', browser') \<and>
     managerOf browser' this' \<and> \<not> isPWA browser' \<and>
     fst (UnifiedStatsManager_getStats JSON this' settings browser') =
       Inr (updateStats stats isCorrect)"
proof -
  from before web have stats: "stats = getStatsForSettings (getStatsFromStorage JSON browser) settings"
    by (simp add: getStats_managerOf [OF mgr])
  have "getStatsForSettings
      (updateStatsForSettings (getStatsFromStorage JSON browser) settings isCorrect) settings =
      updateStats stats isCorrect"
    by (simp add: stats getStatsForSettings_def updateStatsForSettings_def Let_def
        AList.update_conv')
  with web mgr show ?thesis
    by (simp add: saveStats_managerOf getStats_managerOf managerOf_init
        getStatsFromStorage_saved [OF json empty] migrate_asJson)
qed

section \<open>Claims about the manager\<close>

text \<open>
  C3 asks that, in either mode, \<open>getAllStats\<close> is empty and \<open>getStats\<close> gives the
  zeroed record once \<open>clearAllStats\<close> has completed. In the structured mode
  \<open>clearAllStats\<close> completes and leaves the object store as it was: the record is still
  returned by \<open>getAllStats\<close> and by \<open>getStats\<close>.
\<close>

theorem clearAllStats_structured_keeps_stats:
  "UnifiedStatsManager_clearAllStats (new_UnifiedStatsManager pwaBrowser) pwaBrowser =
     (Inr (), UnifiedStatsManager_init (new_UnifiedStatsManager pwaBrowser) pwaBrowser,
      pwaBrowser) \<and>
   fst (UnifiedStatsManager_getAllStats sampleJSON
          (UnifiedStatsManager_init (new_UnifiedStatsManager pwaBrowser) pwaBrowser) pwaBrowser) =
     Inr [(''4-500-0-5'', statsA)] \<and>
   fst (UnifiedStatsManager_getStats sampleJSON
          (UnifiedStatsManager_init (new_UnifiedStatsManager pwaBrowser) pwaBrowser)
          settingsA pwaBrowser) = Inr statsA \<and>
   statsA \<noteq> initializeStats"
proof -
  have mgr: "managerOf pwaBrowser (new_UnifiedStatsManager pwaBrowser)"
    "managerOf pwaBrowser (UnifiedStatsManager_init (new_UnifiedStatsManager pwaBrowser) pwaBrowser)"
    by (simp_all add: managerOf_def)
  have store: "objectStore_stats pwaBrowser = [(''4-500-0-5'', WithBestAccuracy statsA)]"
    by (simp add: pwaBrowser_def)
  have "statsA \<noteq> initializeStats"
    by (simp add: statsA_def initializeStats_def)
  then show ?thesis
    by (simp add: clearAllStats_managerOf [OF mgr(1)] getAllStats_managerOf [OF mgr(2)]
        getStats_managerOf [OF mgr(2)] isPWA_samples store settingsA_key)
qed

text \<open>The flat mode does clear: the item is removed and every read gives the default.\<close>

lemma clearAllStats_flat_empties:
  assumes "managerOf browser this" and "\<not> isPWA browser"
  shows "\<exists>this' browser'.
     UnifiedStatsManager_clearAllStats this browser = (Inr (), this', browser') \<and>
     fst (UnifiedStatsManager_getAllStats JSON this' browser') = Inr [] \<and>
     fst (UnifiedStatsManager_getStats JSON this' settings browser') = Inr initializeStats"
  using assms
  by (simp add: clearAllStats_managerOf getAllStats_managerOf getStats_managerOf managerOf_init
      getStatsFromStorage_def getStatsForSettings_def)

text \<open>
  C9: when the payload does not parse, \<open>importStats\<close> fails with the SyntaxError and
  leaves the browser, and so both stores, exactly as they were; this holds for every
  browser, in the structured mode as in the flat mode.
\<close>

theorem importStats_malformed_payload:
  assumes "managerOf browser this" and "parse JSON jsonData = None"
  shows "UnifiedStatsManager_importStats JSON this jsonData browser =
     (Inl SyntaxError, UnifiedStatsManager_init this browser, browser)"
  using assms by (simp add: importStats_managerOf init_managerOf)

theorem importStats_malformed_payload_witness:
  "managerOf webBrowser (new_UnifiedStatsManager webBrowser) \<and>
   managerOf pwaBrowser (new_UnifiedStatsManager pwaBrowser) \<and>
   parse sampleJSON ''{oops'' = None \<and>
   fst (UnifiedStatsManager_importStats sampleJSON (new_UnifiedStatsManager webBrowser)
          ''{oops'' webBrowser) = Inl SyntaxError \<and>
   snd (snd (UnifiedStatsManager_importStats sampleJSON (new_UnifiedStatsManager webBrowser)
          ''{oops'' webBrowser)) = webBrowser \<and>
   fst (UnifiedStatsManager_importStats sampleJSON (new_UnifiedStatsManager pwaBrowser)
          ''{oops'' pwaBrowser) = Inl SyntaxError \<and>
   snd (snd (UnifiedStatsManager_importStats sampleJSON (new_UnifiedStatsManager pwaBrowser)
          ''{oops'' pwaBrowser)) = pwaBrowser"
proof -
  have web: "managerOf webBrowser (new_UnifiedStatsManager webBrowser)"
    and pwa: "managerOf pwaBrowser (new_UnifiedStatsManager pwaBrowser)"
    by (simp_all add: managerOf_def)
  have bad: "parse sampleJSON ''{oops'' = None"
    by (rule sampleJSON_parse)
  show ?thesis
    using web pwa bad
      importStats_malformed_payload [OF web bad] importStats_malformed_payload [OF pwa bad]
    by simp
qed

text \<open>
  C4 asks that a key absent from the payload keeps its record, in both modes. In the flat
  mode \<open>importStats\<close> replaces the whole item: with a record stored under
  \<^verbatim>\<open>4-500-0-5\<close>, importing a payload that holds only \<^verbatim>\<open>5-500-0-5\<close> leaves the map
  with that one key, and the settings of the first key read the zeroed default afterwards.
\<close>

theorem importStats_flat_drops_absent_keys:
  "fst (UnifiedStatsManager_getStats sampleJSON (new_UnifiedStatsManager webBrowser)
          settingsA webBrowser) = Inr statsA \<and>
   parse sampleJSON textB = Some [(''5-500-0-5'', WithBestAccuracy statsB)] \<and>
   (\<exists>this' browser'.
      UnifiedStatsManager_importStats sampleJSON (new_UnifiedStatsManager webBrowser)
        textB webBrowser = (Inr (), this', browser') \<and>
      fst (UnifiedStatsManager_getAllStats sampleJSON this' browser') =
        Inr [(''5-500-0-5'', statsB)] \<and>
      fst (UnifiedStatsManager_getStats sampleJSON this' settingsA browser') =
        Inr initializeStats)"
proof -
  have mgr: "managerOf webBrowser (new_UnifiedStatsManager webBrowser)"
    "managerOf webBrowser (UnifiedStatsManager_init (new_UnifiedStatsManager webBrowser) webBrowser)"
    by (simp_all add: managerOf_def)
  have after: "getStatsFromStorage sampleJSON (saveStatsToStorage sampleJSON
      [(''5-500-0-5'', WithBestAccuracy statsB)] webBrowser) = [(''5-500-0-5'', statsB)]"
    by (simp add: getStatsFromStorage_def saveStatsToStorage_def sampleJSON_stringify
        sampleJSON_parse textA_textB)
  show ?thesis
    using mgr
    by (simp add: getStats_managerOf importStats_managerOf getAllStats_managerOf
        isPWA_samples sampleJSON_parse getStatsFromStorage_webBrowser after
        getStatsForSettings_def settingsA_key)
qed

text \<open>
  C8: importing what \<open>exportStats\<close> returned leaves the backend with the same statistics
  map, in both modes: \<open>getAllStats\<close> gives afterwards the very map it gave before (the
  same keys with the same records, a record of the older shape counted with the
  \<open>bestAccuracy = 0\<close> that every read gives it). The object store holds one item per key,
  and the JSON library is assumed to parse the exported text back to the exported map and to
  reject the empty text.
\<close>

theorem export_import_roundtrip:
  assumes mgr: "managerOf browser this"
    and store: "distinct (map fst (objectStore_stats browser))"
    and before: "fst (UnifiedStatsManager_getAllStats JSON this browser) = Inr statsMap"
    and json: "parse JSON (stringify JSON (asJson statsMap)) = Some (asJson statsMap)"
    and empty: "parse JSON [] = None"
  shows "\<exists>exported this1 this2 browser2.
     UnifiedStatsManager_exportStats JSON this browser = (Inr exported, this1, browser) \<and>
     UnifiedStatsManager_importStats JSON this1 exported browser = (Inr (), this2, browser2) \<and>
     fst (UnifiedStatsManager_getAllStats JSON this2 browser2) = Inr statsMap"
proof (cases "isPWA browser")
  case True
  let ?ready = "UnifiedStatsManager_init (new_UnifiedStatsManager browser) browser"
  let ?migrated = "map (\<lambda>(settingsKey, stats). (settingsKey, migrate stats))
    (objectStore_stats browser)"
  let ?written = "map (\<lambda>(settingsKey, stats). (settingsKey, WithBestAccuracy (migrate stats)))
    (objectStore_stats browser)"
  from before True have statsMap: "statsMap = ?migrated"
    by (simp add: getAllStats_managerOf [OF mgr] getAll_distinct [OF store])
  have exported: "UnifiedStatsManager_exportStats JSON this browser =
      (Inr (stringify JSON (asJson statsMap)), ?ready, browser)"
    using True by (simp add: exportStats_managerOf [OF mgr] getAll_distinct [OF store] statsMap)
  have imported: "UnifiedStatsManager_importStats JSON ?ready (stringify JSON (asJson statsMap))
      browser = (Inr (), ?ready, browser\<lparr>objectStore_stats := ?written\<rparr>)"
    using True json
    by (simp add: importStats_managerOf [OF managerOf_init] statsMap asJson_migrated
        import_exported_store [OF store])
  have keys: "distinct (map fst ?written)"
    using store by (simp add: comp_def case_prod_unfold)
  have "map (\<lambda>(settingsKey, stats). (settingsKey, migrate stats)) ?written = ?migrated"
    by (simp add: case_prod_unfold comp_def)
  then have after: "fst (UnifiedStatsManager_getAllStats JSON ?ready
      (browser\<lparr>objectStore_stats := ?written\<rparr>)) = Inr statsMap"
    using True managerOf_init [of browser] getAll_distinct [OF keys]
    by (simp add: getAllStats_managerOf statsMap)
  from exported imported after show ?thesis by blast
next
  case False
  let ?ready = "UnifiedStatsManager_init (new_UnifiedStatsManager browser) browser"
  from before False have statsMap: "statsMap = getStatsFromStorage JSON browser"
    by (simp add: getAllStats_managerOf [OF mgr])
  have exported: "UnifiedStatsManager_exportStats JSON this browser =
      (Inr (stringify JSON (asJson statsMap)), ?ready, browser)"
    using False by (simp add: exportStats_managerOf [OF mgr] statsMap)
  have imported: "UnifiedStatsManager_importStats JSON ?ready (stringify JSON (asJson statsMap))
      browser = (Inr (), ?ready, saveStatsToStorage JSON (asJson statsMap) browser)"
    using False json by (simp add: importStats_managerOf [OF managerOf_init])
  have after: "fst (UnifiedStatsManager_getAllStats JSON ?ready
      (saveStatsToStorage JSON (asJson statsMap) browser)) = Inr statsMap"
    using False managerOf_init [of browser]
    by (simp add: getAllStats_managerOf getStatsFromStorage_saved [OF json empty]
        migrate_asJson)
  from exported imported after show ?thesis by blast
qed

theorem export_import_roundtrip_witness:
  "managerOf webBrowser (new_UnifiedStatsManager webBrowser) \<and>
   distinct (map fst (objectStore_stats webBrowser)) \<and>
   fst (UnifiedStatsManager_getAllStats sampleJSON (new_UnifiedStatsManager webBrowser)
          webBrowser) = Inr [(''4-500-0-5'', statsA)] \<and>
   parse sampleJSON (stringify sampleJSON (asJson [(''4-500-0-5'', statsA)])) =
     Some (asJson [(''4-500-0-5'', statsA)]) \<and>
   parse sampleJSON [] = None \<and>
   (\<exists>exported this1 this2 browser2.
      UnifiedStatsManager_exportStats sampleJSON (new_UnifiedStatsManager webBrowser)
        webBrowser = (Inr exported, this1, webBrowser) \<and>
      UnifiedStatsManager_importStats sampleJSON this1 exported webBrowser =
        (Inr (), this2, browser2) \<and>
      fst (UnifiedStatsManager_getAllStats sampleJSON this2 browser2) =
        Inr [(''4-500-0-5'', statsA)]) \<and>
   managerOf pwaBrowser (new_UnifiedStatsManager pwaBrowser) \<and>
   distinct (map fst (objectStore_stats pwaBrowser)) \<and>
   fst (UnifiedStatsManager_getAllStats sampleJSON (new_UnifiedStatsManager pwaBrowser)
          pwaBrowser) = Inr [(''4-500-0-5'', statsA)] \<and>
   (\<exists>exported this1 this2 browser2.
      UnifiedStatsManager_exportStats sampleJSON (new_UnifiedStatsManager pwaBrowser)
        pwaBrowser = (Inr exported, this1, pwaBrowser) \<and>
      UnifiedStatsManager_importStats sampleJSON this1 exported pwaBrowser =
        (Inr (), this2, browser2) \<and>
      fst (UnifiedStatsManager_getAllStats sampleJSON this2 browser2) =
        Inr [(''4-500-0-5'', statsA)])"
proof -
  have web: "managerOf webBrowser (new_UnifiedStatsManager webBrowser)"
    and pwa: "managerOf pwaBrowser (new_UnifiedStatsManager pwaBrowser)"
    by (simp_all add: managerOf_def)
  have web_store: "distinct (map fst (objectStore_stats webBrowser))"
    and pwa_store: "distinct (map fst (objectStore_stats pwaBrowser))"
    by (simp_all add: webBrowser_def pwaBrowser_def)
  have web_before: "fst (UnifiedStatsManager_getAllStats sampleJSON
      (new_UnifiedStatsManager webBrowser) webBrowser) = Inr [(''4-500-0-5'', statsA)]"
    by (simp add: getAllStats_managerOf [OF web] isPWA_samples getStatsFromStorage_webBrowser)
  have pwa_before: "fst (UnifiedStatsManager_getAllStats sampleJSON
      (new_UnifiedStatsManager pwaBrowser) pwaBrowser) = Inr [(''4-500-0-5'', statsA)]"
  proof -
    have "objectStore_stats pwaBrowser = [(''4-500-0-5'', WithBestAccuracy statsA)]"
      by (simp add: pwaBrowser_def)
    then show ?thesis
      by (simp add: getAllStats_managerOf [OF pwa] isPWA_samples)
  qed
  have json: "parse sampleJSON (stringify sampleJSON (asJson [(''4-500-0-5'', statsA)])) =
      Some (asJson [(''4-500-0-5'', statsA)])"
    by (simp add: asJson_def sampleJSON_stringify sampleJSON_parse)
  have empty: "parse sampleJSON [] = None"
    by (rule sampleJSON_parse)
  show ?thesis
    using web web_store web_before json empty pwa pwa_store pwa_before
      export_import_roundtrip [OF web web_store web_before json empty]
      export_import_roundtrip [OF pwa pwa_store pwa_before json empty]
    by simp
qed

text \<open>
  The structured mode does what C4 asks: after an import every key of the payload reads the
  payload's record, and every other key reads what it read before.
\<close>

lemma map_of_saved_entries:
  "distinct (map fst entries) \<Longrightarrow>
   map_of (foldl (\<lambda>store (settingsKey, stats). AList.update settingsKey stats store)
     store entries) key =
   (case map_of entries key of Some stats \<Rightarrow> Some stats | None \<Rightarrow> map_of store key)"
proof (induction entries arbitrary: store)
  case Nil
  show ?case by simp
next
  case (Cons entry entries)
  obtain k v where entry: "entry = (k, v)" by (cases entry)
  from Cons.prems entry have "map_of entries k = None"
    by (auto simp add: map_of_eq_None_iff)
  moreover from Cons.prems have "distinct (map fst entries)" by simp
  ultimately show ?case
    using Cons.IH [of "AList.update k v store"]
    by (auto simp add: entry AList.update_conv' split: option.splits)
qed

lemma importStats_structured_by_key:
  assumes "managerOf browser this" and "isPWA browser"
    and "parse JSON jsonData = Some payload" and "distinct (map fst payload)"
  shows "\<exists>this' browser'.
     UnifiedStatsManager_importStats JSON this jsonData browser = (Inr (), this', browser') \<and>
     (\<forall>settings.
        fst (UnifiedStatsManager_getStats JSON this' settings browser') =
          (case map_of payload (generateSettingsKey settings) of
             Some stats \<Rightarrow> Inr (migrate stats)
           | None \<Rightarrow> fst (UnifiedStatsManager_getStats JSON this settings browser)))"
  using assms
  by (auto simp add: importStats_managerOf getStats_managerOf managerOf_init
      map_of_saved_entries split: option.splits)

end
